theory Spec2Isabelle
  imports Complex_Main
begin

section \<open>Vectors\<close>

text \<open>
  A vector in 3D space is stored as a 3-element array of numbers; the numbers are taken
  as reals. \<open>vnth u c\<close> is the array access \<^verbatim>\<open>u[c]\<close>; the source only ever reads the
  indices 0, 1 and 2.
\<close>

datatype vector = Vector real real real

fun vnth :: "vector \<Rightarrow> nat \<Rightarrow> real" where
  "vnth (Vector a b c) i = [a, b, c] ! i"

text \<open>The constants \<^verbatim>\<open>x = 0\<close>, \<^verbatim>\<open>y = 1\<close>, \<^verbatim>\<open>z = 2\<close> that index a vector.\<close>

definition ix :: nat where "ix = 0"
definition iy :: nat where "iy = 1"
definition iz :: nat where "iz = 2"

text \<open>
  The loop \<^verbatim>\<open>for (var c = x; c <= z; ++c) { result[c] = e(c); }\<close> on an empty array
  \<open>result\<close>: it stores \<open>e 0\<close>, \<open>e 1\<close>, \<open>e 2\<close> in this order.
\<close>

definition fill_xyz :: "(nat \<Rightarrow> real) \<Rightarrow> vector" where
  "fill_xyz e = Vector (e ix) (e (ix + 1)) (e (ix + 2))"

definition Degree :: real where
  "Degree = pi / 180.0"

definition linear_comb :: "real \<Rightarrow> vector \<Rightarrow> real \<Rightarrow> vector \<Rightarrow> vector" where
  "linear_comb a u b v = fill_xyz (\<lambda>c. a * vnth u c + b * vnth v c)"

definition cross :: "vector \<Rightarrow> vector \<Rightarrow> vector" where
  "cross u v = fill_xyz (\<lambda>c. vnth u ((c + 1) mod 3) * vnth v ((c + 2) mod 3)
                           - vnth u ((c + 2) mod 3) * vnth v ((c + 1) mod 3))"

definition rotateNormal :: "vector \<Rightarrow> vector \<Rightarrow> vector \<Rightarrow> real \<Rightarrow> vector" where
  "rotateNormal u v w alpha = linear_comb (cos alpha) u (sin alpha) v"

section \<open>The drawing surface\<close>

text \<open>
  The turtle draws on the 2D context of a canvas element. The context belongs to the
  browser; the source only calls its methods and assigns its properties. A \<open>call\<close> is
  one such method call or property assignment, and a context keeps the calls made on it
  in the order they were made, beside the size of its canvas.
  \<open>SetCanvasWidth\<close> is the assignment \<^verbatim>\<open>canvas.width = ...\<close>.
\<close>

datatype call =
    Save
  | Restore
  | BeginPath
  | ClosePath
  | MoveTo real real
  | LineTo real real
  | Stroke
  | Fill
  | FillRect real real real real
  | SetLineCap string
  | SetLineJoin string
  | SetLineWidth real
  | SetStrokeStyle string
  | SetFillStyle string
  | SetCanvasWidth real

record context2d =
  canvas_width :: real
  canvas_height :: real
  calls :: "call list"

definition issue :: "call list \<Rightarrow> context2d \<Rightarrow> context2d" where
  "issue cs cx = cx\<lparr>calls := calls cx @ cs\<rparr>"

text \<open>
  What a sequence of calls paints. A surface has its current styles, the stack of styles
  pushed by \<^verbatim>\<open>save()\<close>, the current path (the path-building calls since the last
  \<^verbatim>\<open>beginPath()\<close>) and the shapes painted so far: \<^verbatim>\<open>stroke()\<close> paints the current
  path with the current stroke style and line styles, \<^verbatim>\<open>fill()\<close> with the current
  fill style. Every assigned style is taken as a value the surface accepts. Assigning the
  canvas width resets the surface. A painted shape is the path and the styles of one
  \<^verbatim>\<open>stroke()\<close> or \<^verbatim>\<open>fill()\<close>; how the surface renders it (an eye of the turtle is a
  line that ends where it starts) is outside the model.
\<close>

datatype seg = PMove "real \<times> real" | PLine "real \<times> real" | PClose

datatype paint =
    Stroked "seg list" string real string string
  | Filled "seg list" string
  | RectFilled real real real real string

record style =
  strokeStyle :: string
  fillStyle :: string
  lineWidth :: real
  lineCap :: string
  lineJoin :: string

record surface =
  cur :: style
  saved :: "style list"
  path :: "seg list"
  painted :: "paint list"

definition fresh_style :: style where
  "fresh_style = \<lparr>strokeStyle = ''#000000'', fillStyle = ''#000000'', lineWidth = 1,
                   lineCap = ''butt'', lineJoin = ''miter''\<rparr>"

definition fresh_surface :: surface where
  "fresh_surface = \<lparr>cur = fresh_style, saved = [], path = [], painted = []\<rparr>"

fun perform :: "call \<Rightarrow> surface \<Rightarrow> surface" where
  "perform Save s = s\<lparr>saved := cur s # saved s\<rparr>"
| "perform Restore s =
     (case saved s of [] \<Rightarrow> s | st # rest \<Rightarrow> s\<lparr>cur := st, saved := rest\<rparr>)"
| "perform BeginPath s = s\<lparr>path := []\<rparr>"
| "perform ClosePath s = s\<lparr>path := path s @ [PClose]\<rparr>"
| "perform (MoveTo a b) s = s\<lparr>path := path s @ [PMove (a, b)]\<rparr>"
| "perform (LineTo a b) s = s\<lparr>path := path s @ [PLine (a, b)]\<rparr>"
| "perform Stroke s =
     s\<lparr>painted := painted s @ [Stroked (path s) (strokeStyle (cur s)) (lineWidth (cur s))
                                    (lineCap (cur s)) (lineJoin (cur s))]\<rparr>"
| "perform Fill s = s\<lparr>painted := painted s @ [Filled (path s) (fillStyle (cur s))]\<rparr>"
| "perform (FillRect a b w h) s =
     s\<lparr>painted := painted s @ [RectFilled a b w h (fillStyle (cur s))]\<rparr>"
| "perform (SetLineCap v) s = s\<lparr>cur := (cur s)\<lparr>lineCap := v\<rparr>\<rparr>"
| "perform (SetLineJoin v) s = s\<lparr>cur := (cur s)\<lparr>lineJoin := v\<rparr>\<rparr>"
| "perform (SetLineWidth v) s = s\<lparr>cur := (cur s)\<lparr>lineWidth := v\<rparr>\<rparr>"
| "perform (SetStrokeStyle v) s = s\<lparr>cur := (cur s)\<lparr>strokeStyle := v\<rparr>\<rparr>"
| "perform (SetFillStyle v) s = s\<lparr>cur := (cur s)\<lparr>fillStyle := v\<rparr>\<rparr>"
| "perform (SetCanvasWidth w) s = fresh_surface"

definition perform_all :: "call list \<Rightarrow> surface \<Rightarrow> surface" where
  "perform_all cs s = fold perform cs s"

text \<open>The shapes that the calls \<open>cs\<close> add to a surface in state \<open>s\<close>.\<close>

definition paints :: "call list \<Rightarrow> surface \<Rightarrow> paint list" where
  "paints cs s = drop (length (painted s)) (painted (perform_all cs s))"

section \<open>The turtle\<close>

text \<open>
  The methods of a turtle, as they are called. The property \<^verbatim>\<open>log\<close> of a turtle is a
  text with one line per call made while \<^verbatim>\<open>logging\<close> is on, such as
  \<^verbatim>\<open>Move(1);\<close>. The model keeps each line as the call it spells (\<open>log_lines\<close>): the
  decimal text that the engine prints for a number is not modelled. \<^verbatim>\<open>Segment\<close>
  writes no line of its own.
\<close>

datatype invocation =
    Call_Home
  | Call_Clean "string option"
  | Call_PenActive bool
  | Call_PenDown
  | Call_PenUp
  | Call_SetPenWidth real
  | Call_SetPenStyle string
  | Call_Move real
  | Call_Turn real
  | Call_Roll real
  | Call_Dive real
  | Call_Segment real real real
  | Call_DrawTurtle string

record turtle =
  log_lines :: "invocation list"
  logging :: bool
  unit :: real
  canvasID :: string
  ctx :: context2d
  home :: vector
  position :: vector
  heading :: vector
  normal :: vector
  pen :: bool
  penStyle :: string
  penWidth :: real

text \<open>\<^verbatim>\<open>if ( logging ) { log += '...'; }\<close>\<close>

definition logged :: "invocation \<Rightarrow> turtle \<Rightarrow> turtle" where
  "logged e t = (if logging t then t\<lparr>log_lines := log_lines t @ [e]\<rparr> else t)"

definition Home :: "turtle \<Rightarrow> turtle" where
  "Home t =
     (let t1 = logged Call_Home t
      in t1\<lparr>position := home t1, heading := Vector 0.0 1.0 0.0, normal := Vector 0.0 0.0 1.0\<rparr>)"

subsection \<open>Construction\<close>

text \<open>
  \<^verbatim>\<open>new Turtle(options)\<close> and \<^verbatim>\<open>Init\<close>. The constructor reads the top of the stack of
  defaults and looks the canvas up in the document by its id; a document is modelled as
  the map from the ids of its canvas elements to their width and height. When there is
  no such element, \<^verbatim>\<open>getElementById\<close> gives null and the call of
  \<^verbatim>\<open>getContext\<close> throws. An absent option, and one whose value is falsy (0 or the
  empty string), leave the default in place. The calls of a context are counted from the
  moment the turtle obtains it.
\<close>

record defaults =
  def_canvasID :: string
  def_unit :: real

record options =
  opt_origin :: "string option"
  opt_unit :: "real option"
  opt_canvasID :: "string option"

datatype error = TypeError

type_synonym document = "string \<rightharpoonup> real \<times> real"

text \<open>One round of the loop over the characters of \<^verbatim>\<open>options.origin\<close>.\<close>

definition origin_char :: "real \<Rightarrow> real \<Rightarrow> char \<Rightarrow> real \<times> real \<Rightarrow> real \<times> real" where
  "origin_char cw ch k xy =
     (case xy of (x0, y0) \<Rightarrow>
        if k = CHR ''t'' then (0.0, y0)
        else if k = CHR ''m'' then (ch / 2, y0)
        else if k = CHR ''b'' then (ch, y0)
        else if k = CHR ''l'' then (x0, 0.0)
        else if k = CHR ''c'' then (x0, cw / 2)
        else if k = CHR ''r'' then (x0, cw)
        else (x0, y0))"

definition Init :: "document \<Rightarrow> defaults \<Rightarrow> options \<Rightarrow> turtle \<Rightarrow> error + turtle" where
  "Init doc dflt opts this =
     (let unit1 = (case opt_unit opts of
                     None \<Rightarrow> def_unit dflt
                   | Some u \<Rightarrow> if u \<noteq> 0 then u else def_unit dflt);
          canvasID1 = (case opt_canvasID opts of
                         None \<Rightarrow> def_canvasID dflt
                       | Some i \<Rightarrow> if i \<noteq> [] then i else def_canvasID dflt)
      in case doc canvasID1 of
           None \<Rightarrow> Inl TypeError
         | Some (cw, ch) \<Rightarrow>
             (let (x0, y0) = (case opt_origin opts of
                                None \<Rightarrow> (ch / 2, cw / 2)
                              | Some s \<Rightarrow> fold (origin_char cw ch) s (ch / 2, cw / 2));
                  this1 = this\<lparr>unit := unit1, canvasID := canvasID1,
                               ctx := \<lparr>canvas_width = cw, canvas_height = ch, calls = []\<rparr>,
                               home := Vector x0 y0 0.0,
                               pen := True, penStyle := ''black'', penWidth := 2\<rparr>
              in Inr ((Home this1)\<lparr>logging := True\<rparr>)))"

text \<open>
  The constructor sets \<^verbatim>\<open>log = ''\<close> and \<^verbatim>\<open>logging = false\<close> and calls \<open>Init\<close>, which
  assigns every other property before it is read; \<^verbatim>\<open>position\<close>, \<^verbatim>\<open>heading\<close> and
  \<^verbatim>\<open>normal\<close> are empty arrays until \<open>Home\<close> sets them, for which the zero vector stands
  here.
\<close>

definition Turtle :: "document \<Rightarrow> defaults \<Rightarrow> options \<Rightarrow> error + turtle" where
  "Turtle doc dflt opts =
     Init doc dflt opts
       \<lparr>log_lines = [], logging = False, unit = 0, canvasID = [],
        ctx = \<lparr>canvas_width = 0, canvas_height = 0, calls = []\<rparr>,
        home = Vector 0 0 0, position = Vector 0 0 0, heading = Vector 0 0 0,
        normal = Vector 0 0 0, pen = False, penStyle = [], penWidth = 0\<rparr>"

subsection \<open>Pen and canvas\<close>

definition Clear :: "string option \<Rightarrow> context2d \<Rightarrow> context2d" where
  "Clear colour cx =
     issue (SetCanvasWidth (canvas_width cx) #
            (case colour of
               None \<Rightarrow> []
             | Some col \<Rightarrow> [SetFillStyle col,
                            FillRect 0 0 (canvas_width cx) (canvas_height cx)])) cx"

definition Clean :: "string option \<Rightarrow> turtle \<Rightarrow> turtle" where
  "Clean colour t = (let t1 = logged (Call_Clean colour) t in t1\<lparr>ctx := Clear colour (ctx t1)\<rparr>)"

definition PenActive :: "bool \<Rightarrow> turtle \<Rightarrow> turtle" where
  "PenActive b t = (logged (Call_PenActive b) t)\<lparr>pen := b\<rparr>"

definition PenDown :: "turtle \<Rightarrow> turtle" where
  "PenDown t = (logged Call_PenDown t)\<lparr>pen := True\<rparr>"

definition PenUp :: "turtle \<Rightarrow> turtle" where
  "PenUp t = (logged Call_PenUp t)\<lparr>pen := False\<rparr>"

definition SetPenWidth :: "real \<Rightarrow> turtle \<Rightarrow> turtle" where
  "SetPenWidth w t = (logged (Call_SetPenWidth w) t)\<lparr>penWidth := w\<rparr>"

definition SetPenStyle :: "string \<Rightarrow> turtle \<Rightarrow> turtle" where
  "SetPenStyle c t = (logged (Call_SetPenStyle c) t)\<lparr>penStyle := c\<rparr>"

subsection \<open>Motion\<close>

definition Move :: "real \<Rightarrow> turtle \<Rightarrow> turtle" where
  "Move d t =
     (let t1 = logged (Call_Move d) t;
          newposition = linear_comb 1 (position t1) (d * unit t1) (heading t1);
          t2 = (if pen t1
                then t1\<lparr>ctx := issue
                        [Save,
                         SetLineCap ''round'',
                         SetLineJoin ''round'',
                         SetLineWidth (penWidth t1),
                         SetStrokeStyle (penStyle t1),
                         BeginPath,
                         MoveTo (vnth (position t1) iy) (vnth (position t1) ix),
                         LineTo (vnth newposition iy) (vnth newposition ix),
                         Stroke,
                         Restore] (ctx t1)\<rparr>
                else t1)
      in t2\<lparr>position := newposition\<rparr>)"

definition Turn :: "real \<Rightarrow> turtle \<Rightarrow> turtle" where
  "Turn phi t =
     (let t1 = logged (Call_Turn phi) t;
          alpha = phi * Degree;
          left = cross (normal t1) (heading t1);
          newheading = rotateNormal (heading t1) left (normal t1) alpha
      in t1\<lparr>heading := newheading\<rparr>)"

definition Roll :: "real \<Rightarrow> turtle \<Rightarrow> turtle" where
  "Roll psi t =
     (let t1 = logged (Call_Roll psi) t;
          alpha = psi * Degree;
          right = cross (heading t1) (normal t1);
          newnormal = rotateNormal (normal t1) right (heading t1) alpha
      in t1\<lparr>normal := newnormal\<rparr>)"

definition Dive :: "real \<Rightarrow> turtle \<Rightarrow> turtle" where
  "Dive theta t =
     (let t1 = logged (Call_Dive theta) t;
          alpha = theta * Degree;
          left = cross (normal t1) (heading t1);
          newnormal = rotateNormal (normal t1) (heading t1) left alpha;
          t2 = t1\<lparr>normal := newnormal\<rparr>
      in t2\<lparr>heading := cross left (normal t2)\<rparr>)"

definition Segment :: "real \<Rightarrow> real \<Rightarrow> real \<Rightarrow> turtle \<Rightarrow> turtle" where
  "Segment d psi phi t = Turn phi (Roll psi (Move d t))"

subsection \<open>Drawing the turtle\<close>

text \<open>
  The functions nested in \<^verbatim>\<open>DrawTurtle\<close> read its argument \<open>c\<close>, its local variables
  and, through \<^verbatim>\<open>turtle = this\<close>, the turtle; here they take them as arguments and
  return the calls they make on the context, in order. A point \<open>p\<close> is drawn at the
  canvas position \<open>(p[y], p[x])\<close>.
\<close>

definition drawWings ::
  "string \<Rightarrow> real \<Rightarrow> vector \<Rightarrow> vector \<Rightarrow> vector \<Rightarrow> vector \<Rightarrow> turtle \<Rightarrow> call list" where
  "drawWings c a nose back port star turtle =
     [BeginPath,
      MoveTo (vnth nose iy) (vnth nose ix),
      LineTo (vnth back iy) (vnth back ix),
      LineTo (vnth star iy) (vnth star ix),
      ClosePath,
      SetFillStyle c,
      Fill,
      BeginPath,
      MoveTo (vnth nose iy) (vnth nose ix),
      LineTo (vnth back iy) (vnth back ix),
      LineTo (vnth port iy) (vnth port ix),
      ClosePath,
      SetFillStyle ''white'',
      Fill]
     @ (if vnth (normal turtle) iz \<ge> 0
        then
          [Save,
           SetLineWidth 2,
           BeginPath,
           MoveTo (vnth (position turtle) iy + a / 2 * vnth (heading turtle) iy
                     + (vnth star iy - vnth back iy) / 7)
                  (vnth (position turtle) ix + a / 2 * vnth (heading turtle) ix
                     + (vnth star ix - vnth back ix) / 7),
           LineTo (vnth (position turtle) iy + a / 2 * vnth (heading turtle) iy
                     + (vnth star iy - vnth back iy) / 7)
                  (vnth (position turtle) ix + a / 2 * vnth (heading turtle) ix
                     + (vnth star ix - vnth back ix) / 7),
           SetStrokeStyle ''white'',
           Stroke,
           BeginPath,
           MoveTo (vnth (position turtle) iy + a / 2 * vnth (heading turtle) iy
                     + (vnth port iy - vnth back iy) / 7)
                  (vnth (position turtle) ix + a / 2 * vnth (heading turtle) ix
                     + (vnth port ix - vnth back ix) / 7),
           LineTo (vnth (position turtle) iy + a / 2 * vnth (heading turtle) iy
                     + (vnth port iy - vnth back iy) / 7)
                  (vnth (position turtle) ix + a / 2 * vnth (heading turtle) ix
                     + (vnth port ix - vnth back ix) / 7),
           SetStrokeStyle c,
           Stroke,
           Restore]
        else
          [BeginPath,
           MoveTo (vnth (position turtle) iy) (vnth (position turtle) ix),
           LineTo (vnth (position turtle) iy + (vnth port iy - vnth nose iy) / 5)
                  (vnth (position turtle) ix + (vnth port ix - vnth nose ix) / 5),
           SetStrokeStyle c,
           Stroke,
           BeginPath,
           MoveTo (vnth (position turtle) iy) (vnth (position turtle) ix),
           LineTo (vnth (position turtle) iy + (vnth star iy - vnth nose iy) / 5)
                  (vnth (position turtle) ix + (vnth star ix - vnth nose ix) / 5),
           SetStrokeStyle ''white'',
           Stroke])
     @ [BeginPath,
        MoveTo (vnth nose iy) (vnth nose ix),
        LineTo (vnth star iy) (vnth star ix),
        LineTo (vnth back iy) (vnth back ix),
        SetStrokeStyle ''white'',
        Stroke,
        BeginPath,
        MoveTo (vnth nose iy) (vnth nose ix),
        LineTo (vnth port iy) (vnth port ix),
        LineTo (vnth back iy) (vnth back ix),
        SetStrokeStyle c,
        Stroke]"

definition drawFinFace :: "string \<Rightarrow> vector \<Rightarrow> vector \<Rightarrow> turtle \<Rightarrow> call list" where
  "drawFinFace fc fin back turtle =
     [BeginPath,
      MoveTo (vnth (position turtle) iy) (vnth (position turtle) ix),
      LineTo (vnth fin iy) (vnth fin ix),
      LineTo (vnth back iy) (vnth back ix),
      ClosePath,
      SetFillStyle fc,
      Fill]"

definition drawFinEdge :: "string \<Rightarrow> vector \<Rightarrow> vector \<Rightarrow> turtle \<Rightarrow> call list" where
  "drawFinEdge fc fin back turtle =
     [BeginPath,
      MoveTo (vnth (position turtle) iy) (vnth (position turtle) ix),
      LineTo (vnth fin iy) (vnth fin ix),
      LineTo (vnth back iy) (vnth back ix),
      ClosePath,
      SetStrokeStyle fc,
      Stroke]"

definition drawFin :: "string \<Rightarrow> vector \<Rightarrow> vector \<Rightarrow> vector \<Rightarrow> turtle \<Rightarrow> call list" where
  "drawFin c left fin back turtle =
     (if vnth left iz \<ge> 0
      then drawFinFace ''white'' fin back turtle @ drawFinEdge c fin back turtle
      else drawFinEdge ''white'' fin back turtle @ drawFinFace c fin back turtle)"

text \<open>The local variables of \<^verbatim>\<open>DrawTurtle\<close>, for a turtle \<open>t\<close>.\<close>

definition dt_left :: "turtle \<Rightarrow> vector" where
  "dt_left t = cross (normal t) (heading t)"

definition dt_alpha :: real where
  "dt_alpha = 30 * Degree"

definition dt_a :: "turtle \<Rightarrow> real" where
  "dt_a t = 2 / 3 * unit t * cos dt_alpha"

definition dt_nose :: "turtle \<Rightarrow> vector" where
  "dt_nose t = linear_comb 1 (position t) (dt_a t) (heading t)"

definition dt_back :: "turtle \<Rightarrow> vector" where
  "dt_back t = linear_comb 1 (dt_nose t) (- unit t * cos dt_alpha) (heading t)"

definition dt_port :: "turtle \<Rightarrow> vector" where
  "dt_port t = linear_comb 1 (dt_back t) (unit t * sin dt_alpha) (dt_left t)"

definition dt_star :: "turtle \<Rightarrow> vector" where
  "dt_star t = linear_comb 1 (dt_back t) (- unit t * sin dt_alpha) (dt_left t)"

definition dt_fin :: "turtle \<Rightarrow> vector" where
  "dt_fin t = linear_comb 1 (dt_back t) (unit t * sin dt_alpha) (normal t)"

definition DrawTurtle :: "string \<Rightarrow> turtle \<Rightarrow> turtle" where
  "DrawTurtle c t =
     (let t1 = logged (Call_DrawTurtle c) t;
          left = dt_left t1;
          a = dt_a t1;
          nose = dt_nose t1;
          back = dt_back t1;
          port = dt_port t1;
          star = dt_star t1;
          fin = dt_fin t1
      in t1\<lparr>ctx := issue
              ([Save, SetLineWidth 1, SetLineCap ''round'', SetLineJoin ''round'']
               @ (if vnth (normal t1) iz \<ge> 0
                  then drawWings c a nose back port star t1 @ drawFin c left fin back t1
                  else drawFin c left fin back t1 @ drawWings c a nose back port star t1)
               @ [Restore])
              (ctx t1)\<rparr>)"

subsection \<open>Sequences of calls\<close>

fun exec :: "invocation \<Rightarrow> turtle \<Rightarrow> turtle" where
  "exec Call_Home t = Home t"
| "exec (Call_Clean colour) t = Clean colour t"
| "exec (Call_PenActive b) t = PenActive b t"
| "exec Call_PenDown t = PenDown t"
| "exec Call_PenUp t = PenUp t"
| "exec (Call_SetPenWidth w) t = SetPenWidth w t"
| "exec (Call_SetPenStyle c) t = SetPenStyle c t"
| "exec (Call_Move d) t = Move d t"
| "exec (Call_Turn phi) t = Turn phi t"
| "exec (Call_Roll psi) t = Roll psi t"
| "exec (Call_Dive theta) t = Dive theta t"
| "exec (Call_Segment d psi phi) t = Segment d psi phi t"
| "exec (Call_DrawTurtle c) t = DrawTurtle c t"

definition run :: "invocation list \<Rightarrow> turtle \<Rightarrow> turtle" where
  "run cs t = fold exec cs t"

section \<open>Notions of the specification\<close>

definition dot :: "vector \<Rightarrow> vector \<Rightarrow> real" where
  "dot u v = vnth u ix * vnth v ix + vnth u iy * vnth v iy + vnth u iz * vnth v iz"

definition vlen :: "vector \<Rightarrow> real" where
  "vlen u = sqrt (dot u u)"

definition orthonormal :: "vector \<Rightarrow> vector \<Rightarrow> bool" where
  "orthonormal h n \<longleftrightarrow> vlen h = 1 \<and> vlen n = 1 \<and> dot h n = 0"

definition neg :: "vector \<Rightarrow> vector" where
  "neg u = Vector (- vnth u ix) (- vnth u iy) (- vnth u iz)"

text \<open>The calls that a method \<open>f\<close> makes on the context of the turtle \<open>t\<close>.\<close>

definition issued_by :: "(turtle \<Rightarrow> turtle) \<Rightarrow> turtle \<Rightarrow> call list" where
  "issued_by f t = drop (length (calls (ctx t))) (calls (ctx (f t)))"

text \<open>
  The calls of \<^verbatim>\<open>drawWings()\<close> and of \<^verbatim>\<open>drawFin()\<close> inside \<^verbatim>\<open>DrawTurtle(c)\<close> on
  the turtle \<open>t\<close>.
\<close>

definition wing_calls :: "string \<Rightarrow> turtle \<Rightarrow> call list" where
  "wing_calls c t = drawWings c (dt_a t) (dt_nose t) (dt_back t) (dt_port t) (dt_star t) t"

definition fin_calls :: "string \<Rightarrow> turtle \<Rightarrow> call list" where
  "fin_calls c t = drawFin c (dt_left t) (dt_fin t) (dt_back t) t"

text \<open>
  Where a point of turtle space lands on the canvas, and the end points of the wing
  decorations: the eye and the hair of the cross on the starboard side and on the port
  side.
\<close>

definition canvas_at :: "vector \<Rightarrow> real \<times> real" where
  "canvas_at p = (vnth p iy, vnth p ix)"

definition star_eye :: "turtle \<Rightarrow> real \<times> real" where
  "star_eye t =
     (vnth (position t) iy + dt_a t / 2 * vnth (heading t) iy
        + (vnth (dt_star t) iy - vnth (dt_back t) iy) / 7,
      vnth (position t) ix + dt_a t / 2 * vnth (heading t) ix
        + (vnth (dt_star t) ix - vnth (dt_back t) ix) / 7)"

definition port_eye :: "turtle \<Rightarrow> real \<times> real" where
  "port_eye t =
     (vnth (position t) iy + dt_a t / 2 * vnth (heading t) iy
        + (vnth (dt_port t) iy - vnth (dt_back t) iy) / 7,
      vnth (position t) ix + dt_a t / 2 * vnth (heading t) ix
        + (vnth (dt_port t) ix - vnth (dt_back t) ix) / 7)"

definition star_hair :: "turtle \<Rightarrow> real \<times> real" where
  "star_hair t =
     (vnth (position t) iy + (vnth (dt_star t) iy - vnth (dt_nose t) iy) / 5,
      vnth (position t) ix + (vnth (dt_star t) ix - vnth (dt_nose t) ix) / 5)"

definition port_hair :: "turtle \<Rightarrow> real \<times> real" where
  "port_hair t =
     (vnth (position t) iy + (vnth (dt_port t) iy - vnth (dt_nose t) iy) / 5,
      vnth (position t) ix + (vnth (dt_port t) ix - vnth (dt_nose t) ix) / 5)"

text \<open>The colours with which a given path is stroked among the shapes painted.\<close>

fun stroke_colours :: "seg list \<Rightarrow> paint list \<Rightarrow> string list" where
  "stroke_colours p [] = []"
| "stroke_colours p (Stroked q col w cp jn # ps) =
     (if q = p then col # stroke_colours p ps else stroke_colours p ps)"
| "stroke_colours p (Filled q col # ps) = stroke_colours p ps"
| "stroke_colours p (RectFilled a b w h col # ps) = stroke_colours p ps"

text \<open>
  The turtle of the usage example: a canvas \<^verbatim>\<open>TGspace\<close> of 400 by 300 pixels, the initial
  defaults, no options.
\<close>

definition example_document :: document where
  "example_document = [''TGspace'' \<mapsto> (400, 300)]"

definition initial_defaults :: defaults where
  "initial_defaults = \<lparr>def_canvasID = ''TGspace'', def_unit = 30\<rparr>"

definition no_options :: options where
  "no_options = \<lparr>opt_origin = None, opt_unit = None, opt_canvasID = None\<rparr>"

definition example_turtle :: turtle where
  "example_turtle =
     \<lparr>log_lines = [], logging = True, unit = 30, canvasID = ''TGspace'',
      ctx = \<lparr>canvas_width = 400, canvas_height = 300, calls = []\<rparr>,
      home = Vector 150 200 0, position = Vector 150 200 0,
      heading = Vector 0 1 0, normal = Vector 0 0 1,
      pen = True, penStyle = ''black'', penWidth = 2\<rparr>"

section \<open>Vector algebra and the fields written by each method\<close>

lemma vnth_num:
  "vnth (Vector a b c) 0 = a"
  "vnth (Vector a b c) 1 = b"
  "vnth (Vector a b c) (Suc 0) = b"
  "vnth (Vector a b c) 2 = c"
  "vnth (Vector a b c) (Suc (Suc 0)) = c"
  by simp_all

declare vnth.simps [simp del]

lemma vnth_index [simp]:
  "vnth (Vector a b c) ix = a"
  "vnth (Vector a b c) iy = b"
  "vnth (Vector a b c) iz = c"
  by (simp_all add: vnth_num ix_def iy_def iz_def)

lemma linear_comb_Vector [simp]:
  "linear_comb a (Vector u0 u1 u2) b (Vector v0 v1 v2)
     = Vector (a * u0 + b * v0) (a * u1 + b * v1) (a * u2 + b * v2)"
  by (simp add: linear_comb_def fill_xyz_def vnth_num ix_def)

lemma cross_Vector [simp]:
  "cross (Vector u0 u1 u2) (Vector v0 v1 v2)
     = Vector (u1 * v2 - u2 * v1) (u2 * v0 - u0 * v2) (u0 * v1 - u1 * v0)"
  by (simp add: cross_def fill_xyz_def vnth_num ix_def)

lemma dot_Vector [simp]:
  "dot (Vector u0 u1 u2) (Vector v0 v1 v2) = u0 * v0 + u1 * v1 + u2 * v2"
  by (simp add: dot_def)


lemma dot_commute: "dot u v = dot v u"
  by (cases u; cases v) simp


lemma dot_linear_comb_right:
  "dot w (linear_comb a u b v) = a * dot w u + b * dot w v"
  by (cases u; cases v; cases w) (simp add: algebra_simps)

lemma dot_cross_self [simp]:
  "dot (cross u v) u = 0" "dot (cross u v) v = 0"
  "dot u (cross u v) = 0" "dot v (cross u v) = 0"
  by (cases u; cases v; simp add: algebra_simps)+


lemma cross_linear_comb_right:
  "cross w (linear_comb a u b v) = linear_comb a (cross w u) b (cross w v)"
  by (cases u; cases v; cases w) (simp add: algebra_simps)

lemma orthonormal_iff:
  "orthonormal h n \<longleftrightarrow> dot h h = 1 \<and> dot n n = 1 \<and> dot h n = 0"
  by (simp add: orthonormal_def vlen_def)

lemma logged_fields [simp]:
  "logging (logged e t) = logging t"
  "unit (logged e t) = unit t"
  "canvasID (logged e t) = canvasID t"
  "ctx (logged e t) = ctx t"
  "home (logged e t) = home t"
  "position (logged e t) = position t"
  "heading (logged e t) = heading t"
  "normal (logged e t) = normal t"
  "pen (logged e t) = pen t"
  "penStyle (logged e t) = penStyle t"
  "penWidth (logged e t) = penWidth t"
  by (simp_all add: logged_def)

lemma Turn_fields:
  "heading (Turn phi t) =
     linear_comb (cos (phi * Degree)) (heading t) (sin (phi * Degree))
       (cross (normal t) (heading t))"
  "normal (Turn phi t) = normal t"
  "position (Turn phi t) = position t"
  by (simp_all add: Turn_def Let_def rotateNormal_def)

lemma Roll_fields:
  "normal (Roll psi t) =
     linear_comb (cos (psi * Degree)) (normal t) (sin (psi * Degree))
       (cross (heading t) (normal t))"
  "heading (Roll psi t) = heading t"
  "position (Roll psi t) = position t"
  by (simp_all add: Roll_def Let_def rotateNormal_def)

lemma Dive_fields:
  "normal (Dive theta t) =
     linear_comb (cos (theta * Degree)) (normal t) (sin (theta * Degree)) (heading t)"
  "heading (Dive theta t) = cross (cross (normal t) (heading t)) (normal (Dive theta t))"
  "position (Dive theta t) = position t"
  by (simp_all add: Dive_def Let_def rotateNormal_def)


lemma deg30: "30 * Degree = pi / 6"
  by (simp add: Degree_def)

lemma cos_sin_deg30: "cos (30 * Degree) = sqrt 3 / 2" "sin (30 * Degree) = 1 / 2"
  by (simp_all add: deg30 cos_30 sin_30)

lemma issue_calls [simp]: "calls (issue cs cx) = calls cx @ cs"
  by (simp add: issue_def)

lemma Move_fields:
  "position (Move d t) = linear_comb 1 (position t) (d * unit t) (heading t)"
  "heading (Move d t) = heading t"
  "normal (Move d t) = normal t"
  "unit (Move d t) = unit t"
  "home (Move d t) = home t"
  by (simp_all add: Move_def Let_def)

lemma Home_fields:
  "position (Home t) = home t"
  "heading (Home t) = Vector 0 1 0"
  "normal (Home t) = Vector 0 0 1"
  "home (Home t) = home t"
  "logging (Home t) = logging t"
  by (simp_all add: Home_def Let_def)

lemma DrawTurtle_frame:
  "DrawTurtle c t = t\<lparr>log_lines := log_lines (DrawTurtle c t), ctx := ctx (DrawTurtle c t)\<rparr>"
  by (simp add: DrawTurtle_def Let_def logged_def)

lemma exec_home: "home (exec i t) = home t"
  by (cases i)
     (simp_all add: Home_fields Move_fields Clean_def PenActive_def PenDown_def PenUp_def
        SetPenWidth_def SetPenStyle_def Turn_def Roll_def Dive_def Segment_def
        DrawTurtle_def Let_def)

lemma run_home: "home (run cs t) = home t"
  unfolding run_def by (induction cs arbitrary: t) (simp_all add: exec_home)

lemma cross_cross_right:
  "cross n (cross n h) = linear_comb (dot n h) n (- dot n n) h"
  by (cases n; cases h) (simp add: algebra_simps)

lemma rotate_back_real:
  fixes c s a b :: real
  assumes "c * c + s * s = 1"
  shows "c * (c * a + s * b) - s * (c * b - s * a) = a"
proof -
  have "c * (c * a + s * b) - s * (c * b - s * a) = (c * c + s * s) * a"
    by (simp add: algebra_simps)
  with assms show ?thesis by simp
qed

lemma rotate_back:
  assumes "c * c + s * s = 1"
  shows "linear_comb c (linear_comb c h s l) (- s) (linear_comb c l s (linear_comb 0 n (- 1) h)) = h"
  by (cases h; cases l; cases n) (simp add: rotate_back_real [OF assms])

lemma Turn_Turn_back:
  assumes "orthonormal (heading t) (normal t)"
  shows "heading (Turn (- phi) (Turn phi t)) = heading t"
proof -
  from assms have nn: "dot (normal t) (normal t) = 1" and hn: "dot (heading t) (normal t) = 0"
    by (simp_all add: orthonormal_iff)
  have nh: "dot (normal t) (heading t) = 0" using hn by (simp add: dot_commute)
  show ?thesis
    by (simp add: Turn_fields cross_linear_comb_right cross_cross_right nn nh
        rotate_back sin_cos_squared_add3)
qed

lemma Roll_Roll_back:
  assumes "orthonormal (heading t) (normal t)"
  shows "normal (Roll (- psi) (Roll psi t)) = normal t"
proof -
  from assms have hh: "dot (heading t) (heading t) = 1" and hn: "dot (heading t) (normal t) = 0"
    by (simp_all add: orthonormal_iff)
  show ?thesis
    by (simp add: Roll_fields cross_linear_comb_right cross_cross_right hh hn
        rotate_back sin_cos_squared_add3)
qed

lemma Move_Move_back: "position (Move (- d) (Move d t)) = position t"
  by (cases "position t"; cases "heading t") (simp add: Move_fields)

lemma issued_by_Move:
  "issued_by (Move d) t =
     (if pen t
      then [Save, SetLineCap ''round'', SetLineJoin ''round'', SetLineWidth (penWidth t),
            SetStrokeStyle (penStyle t), BeginPath,
            MoveTo (vnth (position t) iy) (vnth (position t) ix),
            LineTo (vnth (position (Move d t)) iy) (vnth (position (Move d t)) ix),
            Stroke, Restore]
      else [])"
  by (simp add: issued_by_def Move_def Let_def)

lemma Turtle_example: "Turtle example_document initial_defaults no_options = Inr example_turtle"
  by (simp add: Turtle_def Init_def Let_def example_document_def initial_defaults_def
      no_options_def example_turtle_def Home_def logged_def)

lemma Home_Home_state:
  "Home (Home t) = (Home t)\<lparr>log_lines := log_lines (Home (Home t))\<rparr>"
  by (simp add: Home_def Let_def logged_def)

lemma dot_cross_linear_comb [simp]:
  "dot (cross u v) (linear_comb a u b v) = 0"
  by (simp add: dot_linear_comb_right)

lemma dt_logged [simp]:
  "dt_left (logged e t) = dt_left t"
  "dt_a (logged e t) = dt_a t"
  "dt_nose (logged e t) = dt_nose t"
  "dt_back (logged e t) = dt_back t"
  "dt_port (logged e t) = dt_port t"
  "dt_star (logged e t) = dt_star t"
  "dt_fin (logged e t) = dt_fin t"
  by (simp_all add: dt_left_def dt_a_def dt_nose_def dt_back_def dt_port_def dt_star_def
      dt_fin_def)

lemma draw_logged [simp]:
  "drawWings c a nose back port star (logged e t) = drawWings c a nose back port star t"
  "drawFin c left fin back (logged e t) = drawFin c left fin back t"
  by (simp_all add: drawWings_def drawFin_def drawFinFace_def drawFinEdge_def)

lemma issued_by_DrawTurtle:
  "issued_by (DrawTurtle c) t =
     [Save, SetLineWidth 1, SetLineCap ''round'', SetLineJoin ''round'']
     @ (if vnth (normal t) iz \<ge> 0 then wing_calls c t @ fin_calls c t
        else fin_calls c t @ wing_calls c t)
     @ [Restore]"
  by (simp add: issued_by_def DrawTurtle_def Let_def wing_calls_def fin_calls_def)

lemma paints_fin_calls:
  "paints (fin_calls c t) s =
     (if vnth (dt_left t) iz \<ge> 0
      then [Filled [PMove (canvas_at (position t)), PLine (canvas_at (dt_fin t)),
                    PLine (canvas_at (dt_back t)), PClose] ''white'',
            Stroked [PMove (canvas_at (position t)), PLine (canvas_at (dt_fin t)),
                     PLine (canvas_at (dt_back t)), PClose] c
              (lineWidth (cur s)) (lineCap (cur s)) (lineJoin (cur s))]
      else [Stroked [PMove (canvas_at (position t)), PLine (canvas_at (dt_fin t)),
                     PLine (canvas_at (dt_back t)), PClose] ''white''
              (lineWidth (cur s)) (lineCap (cur s)) (lineJoin (cur s)),
            Filled [PMove (canvas_at (position t)), PLine (canvas_at (dt_fin t)),
                    PLine (canvas_at (dt_back t)), PClose] c])"
  by (simp add: paints_def perform_all_def fin_calls_def drawFin_def drawFinFace_def
      drawFinEdge_def canvas_at_def)

lemma paints_wing_calls:
  "paints (wing_calls c t) s =
     [Filled [PMove (canvas_at (dt_nose t)), PLine (canvas_at (dt_back t)),
              PLine (canvas_at (dt_star t)), PClose] c,
      Filled [PMove (canvas_at (dt_nose t)), PLine (canvas_at (dt_back t)),
              PLine (canvas_at (dt_port t)), PClose] ''white'']
     @ (if vnth (normal t) iz \<ge> 0
        then [Stroked [PMove (star_eye t), PLine (star_eye t)] ''white''
                2 (lineCap (cur s)) (lineJoin (cur s)),
              Stroked [PMove (port_eye t), PLine (port_eye t)] c
                2 (lineCap (cur s)) (lineJoin (cur s))]
        else [Stroked [PMove (canvas_at (position t)), PLine (port_hair t)] c
                (lineWidth (cur s)) (lineCap (cur s)) (lineJoin (cur s)),
              Stroked [PMove (canvas_at (position t)), PLine (star_hair t)] ''white''
                (lineWidth (cur s)) (lineCap (cur s)) (lineJoin (cur s))])
     @ [Stroked [PMove (canvas_at (dt_nose t)), PLine (canvas_at (dt_star t)),
                 PLine (canvas_at (dt_back t))] ''white''
          (lineWidth (cur s)) (lineCap (cur s)) (lineJoin (cur s)),
        Stroked [PMove (canvas_at (dt_nose t)), PLine (canvas_at (dt_port t)),
                 PLine (canvas_at (dt_back t))] c
          (lineWidth (cur s)) (lineCap (cur s)) (lineJoin (cur s))]"
  by (simp add: paints_def perform_all_def wing_calls_def drawWings_def canvas_at_def
      star_eye_def port_eye_def star_hair_def port_hair_def)

lemma deg180: "180 * Degree = pi"
  by (simp add: Degree_def)

lemma Roll_180_example:
  "Roll 180 example_turtle
     = example_turtle\<lparr>log_lines := [Call_Roll 180], normal := Vector 0 0 (- 1)\<rparr>"
  by (simp add: Roll_def Let_def rotateNormal_def logged_def deg180 example_turtle_def)

lemma wing_calls_nonempty: "wing_calls c t \<noteq> []"
  by (simp add: wing_calls_def drawWings_def)

lemma fin_calls_nonempty: "fin_calls c t \<noteq> []"
  by (simp add: fin_calls_def drawFin_def drawFinFace_def)

lemma paints_DrawTurtle:
  "paints (issued_by (DrawTurtle c) t) s =
     (if vnth (normal t) iz \<ge> 0
      then paints (wing_calls c t) (perform_all [SetLineWidth 1, SetLineCap ''round'', SetLineJoin ''round''] s)
           @ paints (fin_calls c t) (perform_all [SetLineWidth 1, SetLineCap ''round'', SetLineJoin ''round''] s)
      else paints (fin_calls c t) (perform_all [SetLineWidth 1, SetLineCap ''round'', SetLineJoin ''round''] s)
           @ paints (wing_calls c t) (perform_all [SetLineWidth 1, SetLineCap ''round'', SetLineJoin ''round''] s))"
  unfolding paints_wing_calls paints_fin_calls issued_by_DrawTurtle
  by (simp add: paints_def perform_all_def wing_calls_def fin_calls_def drawWings_def
      drawFin_def drawFinFace_def drawFinEdge_def canvas_at_def
      star_eye_def port_eye_def star_hair_def port_hair_def)

lemma dt_example:
  "dt_a example_turtle = 10 * sqrt 3"
  "dt_left example_turtle = Vector (- 1) 0 0"
  "dt_nose example_turtle = Vector 150 (200 + 10 * sqrt 3) 0"
  "dt_back example_turtle = Vector 150 (200 - 5 * sqrt 3) 0"
  "dt_port example_turtle = Vector 135 (200 - 5 * sqrt 3) 0"
  "dt_star example_turtle = Vector 165 (200 - 5 * sqrt 3) 0"
  "dt_fin example_turtle = Vector 150 (200 - 5 * sqrt 3) 15"
  by (simp_all add: dt_a_def dt_left_def dt_nose_def dt_back_def dt_port_def dt_star_def
      dt_fin_def dt_alpha_def cos_sin_deg30 example_turtle_def)

lemma dt_rolled:
  "dt_a (Roll 180 example_turtle) = 10 * sqrt 3"
  "dt_left (Roll 180 example_turtle) = Vector 1 0 0"
  "dt_nose (Roll 180 example_turtle) = Vector 150 (200 + 10 * sqrt 3) 0"
  "dt_back (Roll 180 example_turtle) = Vector 150 (200 - 5 * sqrt 3) 0"
  "dt_port (Roll 180 example_turtle) = Vector 165 (200 - 5 * sqrt 3) 0"
  "dt_star (Roll 180 example_turtle) = Vector 135 (200 - 5 * sqrt 3) 0"
  "dt_fin (Roll 180 example_turtle) = Vector 150 (200 - 5 * sqrt 3) (- 15)"
  unfolding Roll_180_example
  by (simp_all add: dt_a_def dt_left_def dt_nose_def dt_back_def dt_port_def dt_star_def
      dt_fin_def dt_alpha_def cos_sin_deg30 example_turtle_def)

lemma decorations_example:
  "star_eye example_turtle = (200 + 5 * sqrt 3, 150 + 15 / 7)"
  "port_eye example_turtle = (200 + 5 * sqrt 3, 150 - 15 / 7)"
  "star_hair (Roll 180 example_turtle) = (200 - 3 * sqrt 3, 147)"
  "port_hair (Roll 180 example_turtle) = (200 - 3 * sqrt 3, 153)"
  "canvas_at (position (Roll 180 example_turtle)) = (200, 150)"
  by (simp_all add: star_eye_def port_eye_def star_hair_def port_hair_def canvas_at_def
      dt_example dt_rolled Roll_fields)
     (simp_all add: example_turtle_def)

lemma calls_within_DrawTurtle:
  "\<exists>before after. issued_by (DrawTurtle c) t = before @ wing_calls c t @ after"
  "\<exists>before after. issued_by (DrawTurtle c) t = before @ fin_calls c t @ after"
proof -
  let ?pre = "[Save, SetLineWidth 1, SetLineCap ''round'', SetLineJoin ''round'']"
  show "\<exists>before after. issued_by (DrawTurtle c) t = before @ wing_calls c t @ after"
  proof (cases "vnth (normal t) iz \<ge> 0")
    case True
    then have "issued_by (DrawTurtle c) t = ?pre @ wing_calls c t @ (fin_calls c t @ [Restore])"
      by (simp add: issued_by_DrawTurtle)
    then show ?thesis by blast
  next
    case False
    then have "issued_by (DrawTurtle c) t = (?pre @ fin_calls c t) @ wing_calls c t @ [Restore]"
      by (simp add: issued_by_DrawTurtle)
    then show ?thesis by blast
  qed
  show "\<exists>before after. issued_by (DrawTurtle c) t = before @ fin_calls c t @ after"
  proof (cases "vnth (normal t) iz \<ge> 0")
    case True
    then have "issued_by (DrawTurtle c) t = (?pre @ wing_calls c t) @ fin_calls c t @ [Restore]"
      by (simp add: issued_by_DrawTurtle)
    then show ?thesis by blast
  next
    case False
    then have "issued_by (DrawTurtle c) t = ?pre @ fin_calls c t @ (wing_calls c t @ [Restore])"
      by (simp add: issued_by_DrawTurtle)
    then show ?thesis by blast
  qed
qed

lemma normal_z_examples:
  "vnth (normal example_turtle) iz = 1"
  "vnth (normal (Roll 180 example_turtle)) iz = - 1"
  unfolding Roll_180_example by (simp_all add: example_turtle_def)

section \<open>The claims\<close>


text \<open>
  C7. \<^verbatim>\<open>Move(d)\<close> followed by \<^verbatim>\<open>Move(-d)\<close> restores the position of every turtle.
  On a turtle whose heading and normal are orthonormal, \<^verbatim>\<open>Turn(phi)\<close> followed by
  \<^verbatim>\<open>Turn(-phi)\<close> restores the heading, and \<^verbatim>\<open>Roll(psi)\<close> followed by
  \<^verbatim>\<open>Roll(-psi)\<close> restores the normal; all exactly, over the reals.
\<close>

theorem inverse_calls:
  "position (Move (- d) (Move d t)) = position t
   \<and> (orthonormal (heading t) (normal t) \<longrightarrow>
        heading (Turn (- phi) (Turn phi t)) = heading t
        \<and> normal (Roll (- psi) (Roll psi t)) = normal t)"
  by (simp add: Move_Move_back Turn_Turn_back Roll_Roll_back)

theorem inverse_calls_witness:
  "orthonormal (heading example_turtle) (normal example_turtle)
   \<and> position (Move (- 2) (Move 2 example_turtle)) = position example_turtle
   \<and> heading (Turn (- 90) (Turn 90 example_turtle)) = heading example_turtle
   \<and> normal (Roll (- 30) (Roll 30 example_turtle)) = normal example_turtle"
proof -
  have o: "orthonormal (heading example_turtle) (normal example_turtle)"
    by (simp add: orthonormal_iff example_turtle_def)
  show ?thesis
    using o inverse_calls [of 2 example_turtle 90 30] by simp
qed

text \<open>
  C9. \<^verbatim>\<open>cross(u, v)\<close> is the standard cross product: its component \<open>c\<close> is
  \<open>u[(c+1) mod 3] * v[(c+2) mod 3] - u[(c+2) mod 3] * v[(c+1) mod 3]\<close>; it is
  anticommutative, \<open>cross u v = - cross v u\<close>; and
  \<open>cross (0,0,1) (1,0,0) = (0,1,0)\<close>.
\<close>

theorem cross_product:
  "(\<forall>c<3. vnth (cross u v) c
             = vnth u ((c + 1) mod 3) * vnth v ((c + 2) mod 3)
               - vnth u ((c + 2) mod 3) * vnth v ((c + 1) mod 3))
   \<and> cross (Vector u0 u1 u2) (Vector v0 v1 v2)
       = Vector (u1 * v2 - u2 * v1) (u2 * v0 - u0 * v2) (u0 * v1 - u1 * v0)
   \<and> cross u v = neg (cross v u)
   \<and> cross (Vector 0 0 1) (Vector 1 0 0) = Vector 0 1 0"
proof -
  have "vnth (cross u v) c
          = vnth u ((c + 1) mod 3) * vnth v ((c + 2) mod 3)
            - vnth u ((c + 2) mod 3) * vnth v ((c + 1) mod 3)" if "c < 3" for c
  proof -
    from that consider "c = 0" | "c = 1" | "c = 2" by linarith
    then show ?thesis
      by cases (simp_all add: cross_def fill_xyz_def ix_def vnth_num)
  qed
  moreover have "cross u v = neg (cross v u)"
    by (cases u; cases v) (simp add: neg_def)
  ultimately show ?thesis by simp
qed

theorem cross_product_witness:
  "(1::nat) < 3
   \<and> vnth (cross (Vector 1 2 3) (Vector 4 5 6)) 1 = 3 * 4 - 1 * 6
   \<and> cross (Vector 1 2 3) (Vector 4 5 6) = Vector (- 3) 6 (- 3)
   \<and> cross (Vector 4 5 6) (Vector 1 2 3) = Vector 3 (- 6) 3"
  using cross_product [of "Vector 1 2 3" "Vector 4 5 6" 1 2 3 4 5 6]
  by (simp add: vnth_num neg_def)


text \<open>
  C5. \<^verbatim>\<open>Move(d)\<close> sets the position to \<open>position + (d * unit) * heading\<close> and leaves
  heading and normal as they are. When the pen is active it makes the calls of one
  stroked line from the old to the new position on the canvas, in the pen style and pen
  width, and these calls paint exactly that line; when the pen is not active it makes no
  call on the context.
\<close>

theorem Move_effect:
  "position (Move d t) = linear_comb 1 (position t) (d * unit t) (heading t)
   \<and> vnth (position (Move d t)) ix = vnth (position t) ix + d * unit t * vnth (heading t) ix
   \<and> vnth (position (Move d t)) iy = vnth (position t) iy + d * unit t * vnth (heading t) iy
   \<and> vnth (position (Move d t)) iz = vnth (position t) iz + d * unit t * vnth (heading t) iz
   \<and> heading (Move d t) = heading t
   \<and> normal (Move d t) = normal t
   \<and> issued_by (Move d) t =
       (if pen t
        then [Save, SetLineCap ''round'', SetLineJoin ''round'', SetLineWidth (penWidth t),
              SetStrokeStyle (penStyle t), BeginPath,
              MoveTo (vnth (position t) iy) (vnth (position t) ix),
              LineTo (vnth (position (Move d t)) iy) (vnth (position (Move d t)) ix),
              Stroke, Restore]
        else [])
   \<and> paints (issued_by (Move d) t) s =
       (if pen t
        then [Stroked [PMove (canvas_at (position t)), PLine (canvas_at (position (Move d t)))]
                (penStyle t) (penWidth t) ''round'' ''round'']
        else [])"
proof -
  have comps:
    "vnth (position (Move d t)) ix = vnth (position t) ix + d * unit t * vnth (heading t) ix"
    "vnth (position (Move d t)) iy = vnth (position t) iy + d * unit t * vnth (heading t) iy"
    "vnth (position (Move d t)) iz = vnth (position t) iz + d * unit t * vnth (heading t) iz"
    by (cases "position t"; cases "heading t"; simp add: Move_fields)+
  have "paints (issued_by (Move d) t) s =
       (if pen t
        then [Stroked [PMove (canvas_at (position t)), PLine (canvas_at (position (Move d t)))]
                (penStyle t) (penWidth t) ''round'' ''round'']
        else [])"
    unfolding issued_by_Move by (simp add: paints_def perform_all_def canvas_at_def)
  with comps show ?thesis
    by (simp add: Move_fields issued_by_Move)
qed

text \<open>
  C8. On a turtle made by the constructor and after any sequence of calls,
  \<^verbatim>\<open>Home()\<close> sets the position to the home point of the construction, the heading to
  \<open>(0,1,0)\<close> and the normal to \<open>(0,0,1)\<close>. Calling it again changes nothing of the state
  of the turtle: position, heading and normal are as after the first call, and so is
  every other property; the one thing a call of \<^verbatim>\<open>Home()\<close> adds to is the log of the
  calls.
\<close>

theorem Home_resets:
  assumes "Turtle doc dflt opts = Inr t0"
  shows "position (Home (run cs t0)) = home t0
         \<and> heading (Home (run cs t0)) = Vector 0 1 0
         \<and> normal (Home (run cs t0)) = Vector 0 0 1
         \<and> position (Home (Home (run cs t0))) = position (Home (run cs t0))
         \<and> heading (Home (Home (run cs t0))) = heading (Home (run cs t0))
         \<and> normal (Home (Home (run cs t0))) = normal (Home (run cs t0))
         \<and> Home (Home (run cs t0))
             = (Home (run cs t0))\<lparr>log_lines := log_lines (Home (Home (run cs t0)))\<rparr>"
  using Home_Home_state [of "run cs t0"]
  by (simp add: Home_fields run_home)

theorem Home_resets_witness:
  "Turtle example_document initial_defaults no_options = Inr example_turtle
   \<and> position (Home (run [Call_Move 1, Call_Turn 90, Call_Move 1] example_turtle))
       = Vector 150 200 0
   \<and> heading (Home (run [Call_Move 1, Call_Turn 90, Call_Move 1] example_turtle))
       = Vector 0 1 0
   \<and> normal (Home (run [Call_Move 1, Call_Turn 90, Call_Move 1] example_turtle))
       = Vector 0 0 1
   \<and> position (Home (Home (run [Call_Move 1, Call_Turn 90, Call_Move 1] example_turtle)))
       = Vector 150 200 0
   \<and> heading (Home (Home (run [Call_Move 1, Call_Turn 90, Call_Move 1] example_turtle)))
       = Vector 0 1 0
   \<and> normal (Home (Home (run [Call_Move 1, Call_Turn 90, Call_Move 1] example_turtle)))
       = Vector 0 0 1"
  using Home_resets [OF Turtle_example, of "[Call_Move 1, Call_Turn 90, Call_Move 1]"]
  by (simp add: Turtle_example) (simp add: example_turtle_def)

text \<open>
  C10. \<^verbatim>\<open>Turn\<close>, \<^verbatim>\<open>Roll\<close> and \<^verbatim>\<open>Dive\<close> leave the position unchanged.
  \<^verbatim>\<open>DrawTurtle\<close> leaves position, heading, normal, pen flag, pen style and pen width
  unchanged: of all the properties of the turtle it writes only the log and, by its
  calls, the context.
\<close>

theorem position_and_state_kept:
  "position (Turn phi t) = position t
   \<and> position (Roll psi t) = position t
   \<and> position (Dive theta t) = position t
   \<and> position (DrawTurtle c t) = position t
   \<and> heading (DrawTurtle c t) = heading t
   \<and> normal (DrawTurtle c t) = normal t
   \<and> pen (DrawTurtle c t) = pen t
   \<and> penStyle (DrawTurtle c t) = penStyle t
   \<and> penWidth (DrawTurtle c t) = penWidth t
   \<and> DrawTurtle c t = t\<lparr>log_lines := log_lines (DrawTurtle c t), ctx := ctx (DrawTurtle c t)\<rparr>"
proof -
  have "DrawTurtle c t = t\<lparr>log_lines := log_lines (DrawTurtle c t), ctx := ctx (DrawTurtle c t)\<rparr>"
    by (rule DrawTurtle_frame)
  moreover have "position (DrawTurtle c t) = position t" "heading (DrawTurtle c t) = heading t"
    "normal (DrawTurtle c t) = normal t" "pen (DrawTurtle c t) = pen t"
    "penStyle (DrawTurtle c t) = penStyle t" "penWidth (DrawTurtle c t) = penWidth t"
    by (simp_all add: DrawTurtle_def Let_def)
  ultimately show ?thesis
    by (simp add: Turn_fields Roll_fields Dive_fields)
qed

text \<open>
  C2. The calls that one \<^verbatim>\<open>DrawTurtle(c)\<close> makes on the context are: the opening
  \<^verbatim>\<open>save()\<close> and line styles; then, when \<open>normal[z] \<ge> 0\<close>, all the calls of the wings
  followed by all the calls of the fin, and when \<open>normal[z] < 0\<close>, all the calls of the fin
  followed by all the calls of the wings; then \<^verbatim>\<open>restore()\<close>. Neither group is
  empty, and the shapes are painted in the same order.
\<close>

theorem draw_order:
  "issued_by (DrawTurtle c) t =
     [Save, SetLineWidth 1, SetLineCap ''round'', SetLineJoin ''round'']
     @ (if vnth (normal t) iz \<ge> 0 then wing_calls c t @ fin_calls c t
        else fin_calls c t @ wing_calls c t)
     @ [Restore]
   \<and> wing_calls c t \<noteq> [] \<and> fin_calls c t \<noteq> []
   \<and> paints (issued_by (DrawTurtle c) t) s =
       (if vnth (normal t) iz \<ge> 0
        then paints (wing_calls c t)
               (perform_all [SetLineWidth 1, SetLineCap ''round'', SetLineJoin ''round''] s)
             @ paints (fin_calls c t)
                 (perform_all [SetLineWidth 1, SetLineCap ''round'', SetLineJoin ''round''] s)
        else paints (fin_calls c t)
               (perform_all [SetLineWidth 1, SetLineCap ''round'', SetLineJoin ''round''] s)
             @ paints (wing_calls c t)
                 (perform_all [SetLineWidth 1, SetLineCap ''round'', SetLineJoin ''round''] s))"
  using paints_DrawTurtle [of c t s]
  by (simp add: issued_by_DrawTurtle wing_calls_nonempty fin_calls_nonempty)

text \<open>
  C3, as amended. The calls of the wings inside \<^verbatim>\<open>DrawTurtle(c)\<close> fill the starboard
  wing in \<open>c\<close> and the port wing white; then, when \<open>normal[z] \<ge> 0\<close>, they stroke the
  eyes, and when \<open>normal[z] < 0\<close>, the two hairs of the cross; then they stroke the
  starboard edge white and the port edge in \<open>c\<close>. In both cases the decoration on the
  starboard side is stroked white and the one on the port side in \<open>c\<close>: the colours of
  the two sides are the same for the eyes and for the cross, and only the order of the
  two strokes differs (starboard first for the eyes, port first for the cross).
\<close>

theorem wing_decorations:
  "(\<exists>before after. issued_by (DrawTurtle c) t = before @ wing_calls c t @ after)
   \<and> paints (wing_calls c t) s =
       [Filled [PMove (canvas_at (dt_nose t)), PLine (canvas_at (dt_back t)),
                PLine (canvas_at (dt_star t)), PClose] c,
        Filled [PMove (canvas_at (dt_nose t)), PLine (canvas_at (dt_back t)),
                PLine (canvas_at (dt_port t)), PClose] ''white'']
       @ (if vnth (normal t) iz \<ge> 0
          then [Stroked [PMove (star_eye t), PLine (star_eye t)] ''white''
                  2 (lineCap (cur s)) (lineJoin (cur s)),
                Stroked [PMove (port_eye t), PLine (port_eye t)] c
                  2 (lineCap (cur s)) (lineJoin (cur s))]
          else [Stroked [PMove (canvas_at (position t)), PLine (port_hair t)] c
                  (lineWidth (cur s)) (lineCap (cur s)) (lineJoin (cur s)),
                Stroked [PMove (canvas_at (position t)), PLine (star_hair t)] ''white''
                  (lineWidth (cur s)) (lineCap (cur s)) (lineJoin (cur s))])
       @ [Stroked [PMove (canvas_at (dt_nose t)), PLine (canvas_at (dt_star t)),
                   PLine (canvas_at (dt_back t))] ''white''
            (lineWidth (cur s)) (lineCap (cur s)) (lineJoin (cur s)),
          Stroked [PMove (canvas_at (dt_nose t)), PLine (canvas_at (dt_port t)),
                   PLine (canvas_at (dt_back t))] c
            (lineWidth (cur s)) (lineCap (cur s)) (lineJoin (cur s))]"
  using calls_within_DrawTurtle(1) [of c t] paints_wing_calls [of c t s]
  by simp

text \<open>
  C3 as stated says that the cross has the colours of the two sides swapped with respect
  to the eyes. \<^verbatim>\<open>DrawTurtle('red')\<close> on the example turtle (normal up) strokes the
  starboard eye white and the port eye red; after \<^verbatim>\<open>Roll(180)\<close> (normal down) it
  strokes the starboard hair white, not red, and the port hair red.
\<close>

theorem decoration_colours_counterexample:
  "0 \<le> vnth (normal example_turtle) iz
   \<and> stroke_colours [PMove (star_eye example_turtle), PLine (star_eye example_turtle)]
         (paints (issued_by (DrawTurtle ''red'') example_turtle) fresh_surface) = [''white'']
   \<and> stroke_colours [PMove (port_eye example_turtle), PLine (port_eye example_turtle)]
         (paints (issued_by (DrawTurtle ''red'') example_turtle) fresh_surface) = [''red'']
   \<and> vnth (normal (Roll 180 example_turtle)) iz < 0
   \<and> stroke_colours [PMove (canvas_at (position (Roll 180 example_turtle))),
                      PLine (star_hair (Roll 180 example_turtle))]
         (paints (issued_by (DrawTurtle ''red'') (Roll 180 example_turtle)) fresh_surface)
       = [''white'']
   \<and> stroke_colours [PMove (canvas_at (position (Roll 180 example_turtle))),
                      PLine (port_hair (Roll 180 example_turtle))]
         (paints (issued_by (DrawTurtle ''red'') (Roll 180 example_turtle)) fresh_surface)
       = [''red'']
   \<and> stroke_colours [PMove (canvas_at (position (Roll 180 example_turtle))),
                      PLine (star_hair (Roll 180 example_turtle))]
         (paints (issued_by (DrawTurtle ''red'') (Roll 180 example_turtle)) fresh_surface)
       \<noteq> [''red'']"
  by (simp add: paints_DrawTurtle paints_wing_calls paints_fin_calls normal_z_examples
      decorations_example dt_example dt_rolled canvas_at_def)

text \<open>
  C6. With \<open>left = cross normal heading\<close>, the calls of the fin inside
  \<^verbatim>\<open>DrawTurtle(c)\<close> fill the fin face (position, fin tip, back) white and stroke its
  edge in \<open>c\<close> when \<open>left[z] \<ge> 0\<close>, and stroke the edge white and fill the face in \<open>c\<close>
  when \<open>left[z] < 0\<close>.
\<close>

theorem fin_colours:
  "dt_left t = cross (normal t) (heading t)
   \<and> (\<exists>before after. issued_by (DrawTurtle c) t = before @ fin_calls c t @ after)
   \<and> paints (fin_calls c t) s =
       (if vnth (dt_left t) iz \<ge> 0
        then [Filled [PMove (canvas_at (position t)), PLine (canvas_at (dt_fin t)),
                      PLine (canvas_at (dt_back t)), PClose] ''white'',
              Stroked [PMove (canvas_at (position t)), PLine (canvas_at (dt_fin t)),
                       PLine (canvas_at (dt_back t)), PClose] c
                (lineWidth (cur s)) (lineCap (cur s)) (lineJoin (cur s))]
        else [Stroked [PMove (canvas_at (position t)), PLine (canvas_at (dt_fin t)),
                       PLine (canvas_at (dt_back t)), PClose] ''white''
                (lineWidth (cur s)) (lineCap (cur s)) (lineJoin (cur s)),
              Filled [PMove (canvas_at (position t)), PLine (canvas_at (dt_fin t)),
                      PLine (canvas_at (dt_back t)), PClose] c])"
  using calls_within_DrawTurtle(2) [of c t] paints_fin_calls [of c t s]
  by (simp add: dt_left_def)

end
